theory Spec2Isabelle
  imports Complex_Main "HOL-Library.Log_Nat"
begin

section \<open>JavaScript values and the built-ins the handlers call\<close>

text \<open>
  The request body is whatever \<^verbatim>\<open>express.json()\<close> parsed, so the two fields the
  handler destructures are arbitrary JSON values, or \<open>JUndefined\<close> when the field is
  absent. The payload of \<open>JObj\<close> is the list of the object's own entries in the order
  \<^verbatim>\<open>Object.entries\<close> enumerates them. A string is the list of its code units, each
  below 256; characters outside Latin-1 are not modelled.
\<close>

datatype jsval =
    JUndefined
  | JNull
  | JBool bool
  | JNum rat
  | JStr string
  | JArr "jsval list"
  | JObj "(string \<times> jsval) list"

text \<open>Truthiness, as used by \<^verbatim>\<open>!v\<close>, \<^verbatim>\<open>v && w\<close> and \<^verbatim>\<open>if (v)\<close>.\<close>

fun truthy :: "jsval \<Rightarrow> bool" where
  "truthy JUndefined = False"
| "truthy JNull = False"
| "truthy (JBool b) = b"
| "truthy (JNum n) = (n \<noteq> 0)"
| "truthy (JStr s) = (s \<noteq> [])"
| "truthy (JArr xs) = True"
| "truthy (JObj kvs) = True"

text \<open>\<^verbatim>\<open>typeof v === 'object'\<close>: true of objects and arrays, and of \<^verbatim>\<open>null\<close>.\<close>

fun typeof_object :: "jsval \<Rightarrow> bool" where
  "typeof_object JNull = True"
| "typeof_object (JArr xs) = True"
| "typeof_object (JObj kvs) = True"
| "typeof_object v = False"

text \<open>\<^verbatim>\<open>typeof v === 'boolean'\<close>.\<close>

fun typeof_boolean :: "jsval \<Rightarrow> bool" where
  "typeof_boolean (JBool b) = True"
| "typeof_boolean v = False"

text \<open>The decimal spelling of an array index, the property key of an element.\<close>

definition digit_char :: "nat \<Rightarrow> char" where
  "digit_char d = (''0123456789'' ! d)"

fun string_of_nat :: "nat \<Rightarrow> string" where
  "string_of_nat n =
     (if n < 10 then [digit_char n]
      else string_of_nat (n div 10) @ [digit_char (n mod 10)])"

declare string_of_nat.simps [simp del]

definition index_keys :: "nat \<Rightarrow> string list" where
  "index_keys n = map string_of_nat [0..<n]"

text \<open>
  \<^verbatim>\<open>Object.entries(v)\<close>. An array enumerates its indices, a string its characters, a
  number or a boolean nothing. On \<^verbatim>\<open>undefined\<close> and \<^verbatim>\<open>null\<close> the built-in throws; both
  call sites below test the truthiness of the argument first, so that case is never
  evaluated and is given the empty list here.
\<close>

fun Object_entries :: "jsval \<Rightarrow> (string \<times> jsval) list" where
  "Object_entries (JObj kvs) = kvs"
| "Object_entries (JArr xs) = zip (index_keys (length xs)) xs"
| "Object_entries (JStr s) = zip (index_keys (length s)) (map (\<lambda>c. JStr [c]) s)"
| "Object_entries v = []"

subsection \<open>\<^verbatim>\<open>Number(key)\<close> on a string: when the result is NaN\<close>

text \<open>
  \<^verbatim>\<open>Number\<close> applied to a string trims white space (tab, line feed, vertical tab, form
  feed, carriage return, space, no-break space) and reads a numeric literal: the
  empty string (0), a binary, octal or hexadecimal integer with its prefix, or an
  optionally signed decimal literal, which may be \<^verbatim>\<open>Infinity\<close>, may have a fraction with
  either side of the point empty (not both), and may have an exponent. Anything else is
  NaN.
\<close>

definition is_ws :: "char \<Rightarrow> bool" where
  "is_ws c = (c \<in> set [CHR 0x09, CHR 0x0A, CHR 0x0B, CHR 0x0C, CHR 0x0D, CHR '' '', CHR 0xA0])"

definition is_digit :: "char \<Rightarrow> bool" where
  "is_digit c = (c \<in> set ''0123456789'')"

definition is_hex_digit :: "char \<Rightarrow> bool" where
  "is_hex_digit c = (c \<in> set ''0123456789abcdefABCDEF'')"

definition is_octal_digit :: "char \<Rightarrow> bool" where
  "is_octal_digit c = (c \<in> set ''01234567'')"

definition is_binary_digit :: "char \<Rightarrow> bool" where
  "is_binary_digit c = (c \<in> set ''01'')"

definition trim :: "string \<Rightarrow> string" where
  "trim s = rev (dropWhile is_ws (rev (dropWhile is_ws s)))"

definition digits1 :: "(char \<Rightarrow> bool) \<Rightarrow> string \<Rightarrow> bool" where
  "digits1 p s = (s \<noteq> [] \<and> list_all p s)"

fun signed_integer :: "string \<Rightarrow> bool" where
  "signed_integer [] = False"
| "signed_integer (c # r) =
     (if c = CHR ''+'' \<or> c = CHR ''-'' then digits1 is_digit r
      else digits1 is_digit (c # r))"

fun exponent_opt :: "string \<Rightarrow> bool" where
  "exponent_opt [] = True"
| "exponent_opt (c # r) = ((c = CHR ''e'' \<or> c = CHR ''E'') \<and> signed_integer r)"

definition unsigned_decimal :: "string \<Rightarrow> bool" where
  "unsigned_decimal s =
     (if s = ''Infinity'' then True
      else
        let ip = takeWhile is_digit s; r1 = dropWhile is_digit s
        in case r1 of
             [] \<Rightarrow> ip \<noteq> []
           | c # r2 \<Rightarrow>
               if c = CHR ''.''
               then (let fp = takeWhile is_digit r2; r3 = dropWhile is_digit r2
                     in (ip \<noteq> [] \<or> fp \<noteq> []) \<and> exponent_opt r3)
               else ip \<noteq> [] \<and> exponent_opt r1)"

fun decimal_literal :: "string \<Rightarrow> bool" where
  "decimal_literal [] = False"
| "decimal_literal (c # r) =
     (if c = CHR ''+'' \<or> c = CHR ''-'' then unsigned_decimal r
      else unsigned_decimal (c # r))"

fun non_decimal_literal :: "string \<Rightarrow> bool" where
  "non_decimal_literal (z # p # r) =
     (z = CHR ''0'' \<and>
      (if p = CHR ''x'' \<or> p = CHR ''X'' then digits1 is_hex_digit r
       else if p = CHR ''o'' \<or> p = CHR ''O'' then digits1 is_octal_digit r
       else if p = CHR ''b'' \<or> p = CHR ''B'' then digits1 is_binary_digit r
       else False))"
| "non_decimal_literal s = False"

definition Number_isNaN :: "string \<Rightarrow> bool" where
  "Number_isNaN key =
     (let s = trim key
      in \<not> (s = [] \<or> non_decimal_literal s \<or> decimal_literal s))"

section \<open>Double-precision arithmetic\<close>

text \<open>
  A JavaScript number is an IEEE 754 double. A finite double is modelled by the rational
  it denotes, and an operation by the exact result rounded to 53 significant bits, ties
  to the even significand (\<open>fl\<close>). Overflow, subnormals, NaN and the sign of zero are not
  modelled: the quotients and products of the statistics lie between \<open>2\<^sup>-\<^sup>3\<^sup>2\<close> and 100
  whenever the array is one JavaScript can hold (length below \<open>2\<^sup>3\<^sup>2\<close>).
\<close>

text \<open>The binary exponent of a non-zero rational: \<open>2 powi expo x \<le> \<bar>x\<bar> < 2 powi (expo x + 1)\<close>.\<close>

definition expo :: "rat \<Rightarrow> int" where
  "expo x =
     (let (p, q) = quotient_of \<bar>x\<bar>; d = bitlen p - bitlen q
      in if 2 powi d \<le> \<bar>x\<bar> then d else d - 1)"

text \<open>Rounding to the nearest integer, a tie to the even one.\<close>

definition rne :: "rat \<Rightarrow> int" where
  "rne y =
     (let f = \<lfloor>y\<rfloor>; d = y - of_int f
      in if d < 1 / 2 then f
         else if 1 / 2 < d then f + 1
         else if even f then f else f + 1)"

definition fl :: "rat \<Rightarrow> rat" where
  "fl x = (if x = 0 then 0
           else let u = 2 powi (expo x - 52) in of_int (rne (x / u)) * u)"

definition js_div :: "rat \<Rightarrow> rat \<Rightarrow> rat" where
  "js_div a b = fl (a / b)"

definition js_mul :: "rat \<Rightarrow> rat \<Rightarrow> rat" where
  "js_mul a b = fl (a * b)"

text \<open>\<^verbatim>\<open>Math.round\<close>: the nearest integer, a tie towards \<open>+\<infinity>\<close>.\<close>

definition Math_round :: "rat \<Rightarrow> int" where
  "Math_round x = \<lfloor>x + 1 / 2\<rfloor>"

text \<open>The literal \<^verbatim>\<open>0.8\<close>, in the server's comparison and as the tracker's constant.\<close>

definition COMPLETION_THRESHOLD :: rat where
  "COMPLETION_THRESHOLD = fl (4 / 5)"

section \<open>The progress store (server)\<close>

text \<open>
  \<^verbatim>\<open>interface VideoProgress\<close> is a row of the table \<^verbatim>\<open>video_progress\<close>; the pair
  \<open>(video_id, user_id)\<close> is its primary key. The table is a map from that key to the row,
  and \<^verbatim>\<open>NOW()\<close> is a parameter of the operations that write. Every query is taken to
  succeed: the \<^verbatim>\<open>catch\<close> of a handler, which answers 500 when the database fails, is
  not modelled.
\<close>

record Progress =
  checkpoints :: "bool list"
  quizzes :: "string \<rightharpoonup> bool"

record VideoProgress = Progress +
  video_id :: string
  user_id :: string
  updated_at :: nat

text \<open>\<^verbatim>\<open>interface ProgressRequest\<close>; \<open>quizzes\<close> is still the raw value of the body.\<close>

record ProgressRequest =
  rq_checkpoints :: "bool list"
  rq_quizzes :: jsval

type_synonym db = "string \<times> string \<rightharpoonup> VideoProgress"

definition validateCheckpoints :: "jsval \<Rightarrow> nat option \<Rightarrow> bool" where
  "validateCheckpoints cps expectedLength =
     (case cps of
        JArr xs \<Rightarrow>
          (if (case expectedLength of None \<Rightarrow> False | Some n \<Rightarrow> n \<noteq> 0 \<and> length xs \<noteq> n)
           then False
           else list_all typeof_boolean xs)
      | _ \<Rightarrow> False)"

definition validateQuizzes :: "jsval \<Rightarrow> bool" where
  "validateQuizzes q =
     (if \<not> truthy q \<or> \<not> typeof_object q then True
      else list_all (\<lambda>(key, v). \<not> Number_isNaN key \<and> typeof_boolean v) (Object_entries q))"

text \<open>
  Reading an index of an array of booleans for its truthiness, as in
  \<^verbatim>\<open>existingCheckpoints[index] || false\<close> and \<^verbatim>\<open>!checkpoints[index]\<close>: past the end the
  read is \<^verbatim>\<open>undefined\<close>, which is falsy.
\<close>

definition nth_or_false :: "bool list \<Rightarrow> nat \<Rightarrow> bool" where
  "nth_or_false xs i = (if i < length xs then xs ! i else False)"

text \<open>
  The checkpoint array once \<open>validateCheckpoints\<close> has accepted it: every element is a
  boolean, which is its own truthiness.
\<close>

definition booleans :: "jsval \<Rightarrow> bool list" where
  "booleans cps = (case cps of JArr xs \<Rightarrow> map truthy xs | _ \<Rightarrow> [])"

text \<open>
  \<^verbatim>\<open>mergedQuizzes[key]\<close> read for its truthiness. The object is a plain one, so a key it
  does not own is looked up on \<^verbatim>\<open>Object.prototype\<close>, whose properties are all truthy.
\<close>

definition Object_prototype_names :: "string list" where
  "Object_prototype_names =
     [''constructor'', ''__defineGetter__'', ''__defineSetter__'', ''hasOwnProperty'',
      ''__lookupGetter__'', ''__lookupSetter__'', ''isPrototypeOf'',
      ''propertyIsEnumerable'', ''toString'', ''valueOf'', ''__proto__'',
      ''toLocaleString'']"

definition quiz_truthy :: "(string \<rightharpoonup> bool) \<Rightarrow> string \<Rightarrow> bool" where
  "quiz_truthy m key =
     (case m key of Some b \<Rightarrow> b | None \<Rightarrow> key \<in> set Object_prototype_names)"

text \<open>The body of the \<^verbatim>\<open>forEach\<close> in \<open>mergeProgress\<close>.\<close>

definition merge_quiz :: "string \<times> jsval \<Rightarrow> (string \<rightharpoonup> bool) \<Rightarrow> (string \<rightharpoonup> bool)" where
  "merge_quiz kv m =
     (if truthy (snd kv) \<and> \<not> quiz_truthy m (fst kv) then m(fst kv \<mapsto> True) else m)"

definition mergeProgress :: "VideoProgress option \<Rightarrow> ProgressRequest \<Rightarrow> Progress" where
  "mergeProgress existing incoming =
     (let existingCheckpoints = (case existing of None \<Rightarrow> [] | Some e \<Rightarrow> checkpoints e);
          existingQuizzes = (case existing of None \<Rightarrow> Map.empty | Some e \<Rightarrow> quizzes e);
          mergedCheckpoints =
            map (\<lambda>(newValue, index). nth_or_false existingCheckpoints index \<or> newValue)
              (zip (rq_checkpoints incoming) [0..<length (rq_checkpoints incoming)]);
          mergedQuizzes =
            (if truthy (rq_quizzes incoming)
             then fold merge_quiz (Object_entries (rq_quizzes incoming)) existingQuizzes
             else existingQuizzes)
      in \<lparr>checkpoints = mergedCheckpoints, quizzes = mergedQuizzes\<rparr>)"

text \<open>The regression test of the POST handler: \<^verbatim>\<open>existing.checkpoints.some(...)\<close>.\<close>

definition hasRegression :: "bool list \<Rightarrow> bool list \<Rightarrow> bool" where
  "hasRegression existingCheckpoints cps =
     list_ex (\<lambda>(oldValue, index). oldValue \<and> \<not> nth_or_false cps index)
       (zip existingCheckpoints [0..<length existingCheckpoints])"

text \<open>The completion statistics, computed the same way by the POST and the list handler.\<close>

record Stats =
  total_checkpoints :: nat
  completed_checkpoints :: nat
  completion_rate :: int
  is_completed :: bool

definition completion_stats :: "bool list \<Rightarrow> Stats" where
  "completion_stats cps =
     (let totalCheckpoints = length cps;
          completedCheckpoints = length (filter (\<lambda>b. b) cps);
          completionRate =
            (if 0 < totalCheckpoints
             then js_div (of_nat completedCheckpoints) (of_nat totalCheckpoints) else 0);
          isCompleted = (COMPLETION_THRESHOLD \<le> completionRate)
      in \<lparr>total_checkpoints = totalCheckpoints,
          completed_checkpoints = completedCheckpoints,
          completion_rate = Math_round (js_mul completionRate 100),
          is_completed = isCompleted\<rparr>)"

datatype error = VideoIdRequired | InvalidCheckpoints | InvalidQuizzes | RegressionRejected

record SaveResponse =
  progress :: VideoProgress
  stats :: Stats

text \<open>\<^verbatim>\<open>req.query.userId as string || 'default_user'\<close>; \<open>None\<close> is an absent parameter.\<close>

definition userId_of :: "string option \<Rightarrow> string" where
  "userId_of q = (case q of None \<Rightarrow> ''default_user''
                  | Some s \<Rightarrow> if s = [] then ''default_user'' else s)"

text \<open>\<^verbatim>\<open>app.get('/api/videos/:videoId/progress')\<close>.\<close>

definition getProgress ::
  "db \<Rightarrow> string \<Rightarrow> string option \<Rightarrow> error + (Progress \<times> nat option)" where
  "getProgress d videoId userIdParam =
     (let userId = userId_of userIdParam
      in if videoId = [] then Inl VideoIdRequired
         else case d (videoId, userId) of
                None \<Rightarrow> Inr (\<lparr>checkpoints = [], quizzes = Map.empty\<rparr>, None)
              | Some p \<Rightarrow>
                  Inr (\<lparr>checkpoints = checkpoints p, quizzes = quizzes p\<rparr>,
                       Some (updated_at p)))"

text \<open>
  \<^verbatim>\<open>app.post('/api/videos/:videoId/progress')\<close>, the operation the specification calls
  saveProgress. The result is the response and the table afterwards; every early
  \<^verbatim>\<open>return\<close> leaves the table as it was.
\<close>

definition saveProgress ::
  "db \<Rightarrow> nat \<Rightarrow> string \<Rightarrow> string option \<Rightarrow> jsval \<Rightarrow> jsval \<Rightarrow> (error + SaveResponse) \<times> db" where
  "saveProgress d now videoId userIdParam bodyCheckpoints bodyQuizzes =
     (let userId = userId_of userIdParam
      in if videoId = [] then (Inl VideoIdRequired, d)
         else if \<not> validateCheckpoints bodyCheckpoints None then (Inl InvalidCheckpoints, d)
         else if \<not> validateQuizzes bodyQuizzes then (Inl InvalidQuizzes, d)
         else
           let existing = d (videoId, userId);
               hasReg = (case existing of None \<Rightarrow> False
                         | Some e \<Rightarrow> hasRegression (checkpoints e) (booleans bodyCheckpoints))
           in if hasReg then (Inl RegressionRejected, d)
              else
                let merged = mergeProgress existing
                               \<lparr>rq_checkpoints = booleans bodyCheckpoints,
                                rq_quizzes = bodyQuizzes\<rparr>;
                    savedProgress =
                      \<lparr>checkpoints = checkpoints merged, quizzes = quizzes merged,
                       video_id = videoId, user_id = userId, updated_at = now\<rparr>
                in (Inr \<lparr>progress = savedProgress,
                         stats = completion_stats (checkpoints merged)\<rparr>,
                    d((videoId, userId) \<mapsto> savedProgress)))"

text \<open>\<^verbatim>\<open>app.delete('/api/videos/:videoId/progress')\<close>.\<close>

definition deleteProgress :: "db \<Rightarrow> string \<Rightarrow> string option \<Rightarrow> db" where
  "deleteProgress d videoId userIdParam = d((videoId, userId_of userIdParam) := None)"

section \<open>The playback tracker (client)\<close>

text \<open>
  The component \<^verbatim>\<open>VideoJs\<close>. Its React state is \<open>checkpoints\<close> and \<open>lastSent\<close>; \<open>prevTime\<close>
  and \<open>accum\<close> are locals of the effect that subscribes \<open>onTimeUpdate\<close>, and that effect
  depends on \<open>checkpoints\<close>: whenever the state array is replaced the effect runs again,
  with \<open>prevTime = 0\<close> and \<open>accum\<close> an array of zeros of the new length. The calls of
  \<open>onComplete\<close> are counted and the snapshots handed to the client's \<^verbatim>\<open>saveProgress\<close>
  are listed, in order.

  A sample is what the player's methods and \<^verbatim>\<open>Date.now()\<close> return at an event. The
  arithmetic on times is double arithmetic, as above.
\<close>

definition CHECKPOINT_INTERVAL :: rat where
  "CHECKPOINT_INTERVAL = 10"

definition PROGRESS_SAVE_DEBOUNCE :: int where
  "PROGRESS_SAVE_DEBOUNCE = 5000"

definition js_sub :: "rat \<Rightarrow> rat \<Rightarrow> rat" where
  "js_sub a b = fl (a - b)"

definition js_add :: "rat \<Rightarrow> rat \<Rightarrow> rat" where
  "js_add a b = fl (a + b)"

record Tracker =
  tr_checkpoints :: "bool list"
  lastSent :: int
  prevTime :: rat
  accum :: "rat list"
  completions :: nat
  saves :: "bool list list"

record Sample =
  currentTime :: rat
  playbackRate :: rat
  duration :: rat
  now :: int

datatype js_error = ReferenceError | TypeError

text \<open>
  Calling a method of the player by its name. The player has the methods \<^verbatim>\<open>currentTime\<close>,
  \<^verbatim>\<open>playbackRate\<close> and \<^verbatim>\<open>duration\<close>; a property it does not have is \<^verbatim>\<open>undefined\<close>, and
  calling it throws a TypeError.
\<close>

definition player_call :: "Sample \<Rightarrow> string \<Rightarrow> js_error + rat" where
  "player_call smp name =
     (if name = ''currentTime'' then Inr (currentTime smp)
      else if name = ''playbackRate'' then Inr (playbackRate smp)
      else if name = ''duration'' then Inr (duration smp)
      else Inl TypeError)"

text \<open>
  Reading an identifier inside the ready callback: the constant \<^verbatim>\<open>duration\<close> it has just
  bound and the constants of the module are in scope; reading a name that is declared
  nowhere throws a ReferenceError.
\<close>

definition ready_scope :: "rat \<Rightarrow> string \<Rightarrow> js_error + rat" where
  "ready_scope d name =
     (if name = ''duration'' then Inr d
      else if name = ''CHECKPOINT_INTERVAL'' then Inr CHECKPOINT_INTERVAL
      else if name = ''COMPLETION_THRESHOLD'' then Inr COMPLETION_THRESHOLD
      else if name = ''PROGRESS_SAVE_DEBOUNCE'' then Inr (of_int PROGRESS_SAVE_DEBOUNCE)
      else Inl ReferenceError)"

text \<open>
  The component when it is mounted: \<^verbatim>\<open>useState([])\<close>, \<^verbatim>\<open>useState(0)\<close>, and the first run of
  the effect, with \<^verbatim>\<open>Array(0).fill(0)\<close>.
\<close>

definition mount :: Tracker where
  "mount = \<lparr>tr_checkpoints = [], lastSent = 0, prevTime = 0, accum = [],
            completions = 0, saves = []\<rparr>"

text \<open>
  The callback given to \<^verbatim>\<open>player.ready\<close>: it binds \<^verbatim>\<open>duration\<close>, then reads the identifier
  \<^verbatim>\<open>duratoin\<close> to compute the count; \<^verbatim>\<open>setCheckpoints(Array(count).fill(false))\<close> comes
  after that read, and the new state array makes the effect run again.
\<close>

definition onReady :: "Tracker \<Rightarrow> Sample \<Rightarrow> js_error + Tracker" where
  "onReady s smp =
     (case player_call smp ''duration'' of
        Inl e \<Rightarrow> Inl e
      | Inr d \<Rightarrow>
          (case ready_scope d ''duratoin'' of
             Inl e \<Rightarrow> Inl e
           | Inr x \<Rightarrow>
               let count = nat \<lceil>js_div x CHECKPOINT_INTERVAL\<rceil>
               in Inr (s\<lparr>tr_checkpoints := replicate count False, prevTime := 0,
                          accum := replicate count 0\<rparr>)))"

text \<open>
  \<^verbatim>\<open>updated[idx] = true\<close> on the copy: an index past the end extends the array, and the
  holes in between read as \<^verbatim>\<open>undefined\<close>.
\<close>

definition set_true :: "bool list \<Rightarrow> nat \<Rightarrow> bool list" where
  "set_true xs i =
     (if i < length xs then xs[i := True]
      else xs @ replicate (i - length xs) False @ [True])"

text \<open>The updater passed to \<open>setCheckpoints\<close>, and the render that follows a new array.\<close>

definition setCheckpoints :: "Tracker \<Rightarrow> nat \<Rightarrow> int \<Rightarrow> Tracker" where
  "setCheckpoints s idx t =
     (let prev = tr_checkpoints s
      in if \<not> nth_or_false prev idx
         then
           let updated = set_true prev idx;
               cleared = length (filter (\<lambda>b. b) updated);
               s1 = (if COMPLETION_THRESHOLD \<le> js_div (of_nat cleared) (of_nat (length updated))
                     then s\<lparr>completions := completions s + 1\<rparr> else s);
               s2 = (if PROGRESS_SAVE_DEBOUNCE < t - lastSent s1
                     then s1\<lparr>saves := saves s1 @ [updated], lastSent := t\<rparr> else s1)
           in s2\<lparr>tr_checkpoints := updated, prevTime := 0,
                 accum := replicate (length updated) 0\<rparr>
         else s)"

text \<open>
  The handler of \<^verbatim>\<open>timeupdate\<close>. Its first statement calls the method \<^verbatim>\<open>currentTIme\<close> of the
  player, its second \<^verbatim>\<open>playbackRate\<close> (a rate of 0 is replaced by 1); nothing is assigned
  before these calls, so a throw leaves the state as it was. Then come the signed
  \<open>delta\<close>, the new \<open>prevTime\<close>, the index of the segment, the sum into \<open>accum\<close> (in
  \<^verbatim>\<open>(accum[idx] || 0) + delta\<close> the default replaces a zero by zero) and, once the sum
  reaches the interval, the updater.
\<close>

definition onTimeUpdate :: "Tracker \<Rightarrow> Sample \<Rightarrow> js_error + Tracker" where
  "onTimeUpdate s smp =
     (case player_call smp ''currentTIme'' of
        Inl e \<Rightarrow> Inl e
      | Inr t \<Rightarrow>
          (case player_call smp ''playbackRate'' of
             Inl e \<Rightarrow> Inl e
           | Inr r \<Rightarrow>
               let rate = (if r = 0 then 1 else r);
                   delta = js_mul (js_sub t (prevTime s)) rate;
                   s1 = s\<lparr>prevTime := t\<rparr>;
                   idx = \<lfloor>js_div t CHECKPOINT_INTERVAL\<rfloor>
               in if 0 \<le> idx \<and> idx < int (length (accum s1))
                  then
                    let i = nat idx;
                        a = js_add (accum s1 ! i) delta;
                        s2 = s1\<lparr>accum := (accum s1)[i := a]\<rparr>
                    in Inr (if CHECKPOINT_INTERVAL \<le> a
                            then setCheckpoints s2 i (now smp) else s2)
                  else Inr s1))"

text \<open>
  An event of a session and its effect on the component: an exception thrown by a
  callback is reported by its caller, and the component keeps the state it had.
\<close>

datatype Event = Ready Sample | TimeUpdate Sample

definition dispatch :: "Tracker \<Rightarrow> Event \<Rightarrow> Tracker" where
  "dispatch s ev =
     (case (case ev of Ready smp \<Rightarrow> onReady s smp | TimeUpdate smp \<Rightarrow> onTimeUpdate s smp) of
        Inl e \<Rightarrow> s
      | Inr s' \<Rightarrow> s')"

text \<open>A session: the events in order, from the mounted component.\<close>

definition run :: "Event list \<Rightarrow> Tracker" where
  "run evs = foldl dispatch mount evs"


text \<open>
  A session on a video of 50 seconds: the player becomes ready, plays to the start of each
  of the segments 1 to 4, and then plays 5 seconds of segment 0 at double rate.
\<close>

definition full_session :: "Event list" where
  "full_session =
     [Ready \<lparr>currentTime = 0, playbackRate = 1, duration = 50, now = 500\<rparr>,
      TimeUpdate \<lparr>currentTime = 10, playbackRate = 1, duration = 50, now = 1000\<rparr>,
      TimeUpdate \<lparr>currentTime = 20, playbackRate = 1, duration = 50, now = 2000\<rparr>,
      TimeUpdate \<lparr>currentTime = 30, playbackRate = 1, duration = 50, now = 3000\<rparr>,
      TimeUpdate \<lparr>currentTime = 40, playbackRate = 1, duration = 50, now = 4000\<rparr>,
      TimeUpdate \<lparr>currentTime = 5, playbackRate = 2, duration = 50, now = 5000\<rparr>]"

text \<open>A state of the updater with three of five checkpoints complete.\<close>

definition three_of_five :: Tracker where
  "three_of_five =
     \<lparr>tr_checkpoints = [True, True, True, False, False], lastSent = 0, prevTime = 0,
      accum = [0, 0, 0, 0, 0], completions = 0, saves = []\<rparr>"

section \<open>Observing the table, and the specification's formulas\<close>

text \<open>What a handler reads from the table: \<^verbatim>\<open>existing?.checkpoints || []\<close> and
  \<^verbatim>\<open>existing?.quizzes || {}\<close> for the row of a key.\<close>

definition stored_checkpoints :: "db \<Rightarrow> string \<Rightarrow> string \<Rightarrow> bool list" where
  "stored_checkpoints d videoId userId =
     (case d (videoId, userId) of None \<Rightarrow> [] | Some e \<Rightarrow> checkpoints e)"

definition stored_quizzes :: "db \<Rightarrow> string \<Rightarrow> string \<Rightarrow> (string \<rightharpoonup> bool)" where
  "stored_quizzes d videoId userId =
     (case d (videoId, userId) of None \<Rightarrow> Map.empty | Some e \<Rightarrow> quizzes e)"

text \<open>The statistics of a response, when the save succeeded.\<close>

definition save_stats :: "(error + SaveResponse) \<times> db \<Rightarrow> Stats option" where
  "save_stats res = (case fst res of Inl e \<Rightarrow> None | Inr r \<Rightarrow> Some (stats r))"

text \<open>
  The merged vector as the specification words it: the pointwise OR over the union of the
  two index ranges, a missing entry on either side read as false.
\<close>

definition spec_mergedCheckpoints :: "bool list \<Rightarrow> bool list \<Rightarrow> bool list" where
  "spec_mergedCheckpoints ex inc =
     map (\<lambda>i. nth_or_false ex i \<or> nth_or_false inc i) [0..<max (length ex) (length inc)]"

text \<open>The tables that successful saves can reach from the empty one.\<close>

inductive reachable :: "db \<Rightarrow> bool" where
  empty: "reachable Map.empty"
| save: "reachable d \<Longrightarrow> saveProgress d t videoId userIdParam cps q = (Inr r, d')
           \<Longrightarrow> reachable d'"

text \<open>  The percentage as the specification words it, in exact arithmetic: the quotient times
  100, rounded to the nearest integer with a half rounded up, and 0 for an empty vector.
  \<open>percent_tie\<close> says that the exact percentage lies halfway between two integers.\<close>

definition spec_completionRate :: "nat \<Rightarrow> nat \<Rightarrow> int" where
  "spec_completionRate completedCheckpoints totalCheckpoints =
     (if totalCheckpoints = 0 then 0
      else Math_round (100 * of_nat completedCheckpoints / of_nat totalCheckpoints))"

definition percent_tie :: "nat \<Rightarrow> nat \<Rightarrow> bool" where
  "percent_tie completedCheckpoints totalCheckpoints =
     ((200 * completedCheckpoints + totalCheckpoints) mod (2 * totalCheckpoints) = 0)"

text \<open>\<open>isCompleted\<close> as the specification words it in its output clause: decided by the
  rounded percentage.\<close>

definition spec_isCompleted :: "int \<Rightarrow> bool" where
  "spec_isCompleted completionRate = (4 / 5 \<le> (of_int completionRate :: rat) / 100)"

text \<open>Every quiz value that is stored is \<open>true\<close>.\<close>

definition quizzes_all_true :: "(string \<rightharpoonup> bool) \<Rightarrow> bool" where
  "quizzes_all_true m = (\<forall>k b. m k = Some b \<longrightarrow> b)"

subsection \<open>Concrete tables\<close>

text \<open>  Tables produced by one save into the empty table, and one response: a vector with a
  completed checkpoint, an all-false vector, the first save of the specification's
  scenario, a save that carries quiz answers, and a save of 44 checkpoints of which 35 are
  complete.\<close>

definition db_tf :: db where
  "db_tf = snd (saveProgress Map.empty 1 ''v1'' None (JArr [JBool True, JBool False]) JUndefined)"

definition db_ff :: db where
  "db_ff = snd (saveProgress Map.empty 1 ''v1'' None (JArr [JBool False, JBool False]) JUndefined)"

definition db_s1 :: db where
  "db_s1 = snd (saveProgress Map.empty 1 ''v1'' (Some ''u1'')
                  (JArr [JBool True, JBool False, JBool False]) JUndefined)"

definition db_q :: db where
  "db_q = snd (saveProgress Map.empty 100 ''v1'' None (JArr [JBool True])
                 (JObj [(''1'', JBool True), (''2'', JBool False)]))"

definition save_44 :: "(error + SaveResponse) \<times> db" where
  "save_44 = saveProgress Map.empty 100 ''v1'' None
             (JArr (replicate 35 (JBool True) @ replicate 9 (JBool False))) JUndefined"

section \<open>Properties of the merge and of the save\<close>

lemma mergeProgress_checkpoints:
  "checkpoints (mergeProgress existing incoming) =
     map (\<lambda>i. nth_or_false (case existing of None \<Rightarrow> [] | Some e \<Rightarrow> checkpoints e) i
                \<or> rq_checkpoints incoming ! i)
       [0..<length (rq_checkpoints incoming)]"
  by (rule nth_equalityI) (simp_all add: mergeProgress_def Let_def)

lemma hasRegression_iff:
  "hasRegression ex cps \<longleftrightarrow> (\<exists>i<length ex. ex ! i \<and> \<not> nth_or_false cps i)"
proof
  assume "hasRegression ex cps"
  then obtain p where p: "p \<in> set (zip ex [0..<length ex])" "fst p" "\<not> nth_or_false cps (snd p)"
    by (auto simp: hasRegression_def list_ex_iff)
  then obtain i where "i < length ex" "p = (ex ! i, i)"
    by (auto simp: set_zip)
  with p show "\<exists>i<length ex. ex ! i \<and> \<not> nth_or_false cps i" by auto
next
  assume "\<exists>i<length ex. ex ! i \<and> \<not> nth_or_false cps i"
  then obtain i where i: "i < length ex" "ex ! i" "\<not> nth_or_false cps i" by blast
  then have "(ex ! i, i) \<in> set (zip ex [0..<length ex])"
    by (auto simp: set_zip intro!: exI [of _ i])
  with i show "hasRegression ex cps"
    by (auto simp: hasRegression_def list_ex_iff intro!: bexI [of _ "(ex ! i, i)"])
qed

text \<open>The quiz merge only ever turns a key truthy, and a second pass changes nothing.\<close>

lemma merge_quiz_truthy_mono: "quiz_truthy m k \<Longrightarrow> quiz_truthy (merge_quiz kv m) k"
  by (auto simp: merge_quiz_def quiz_truthy_def split: option.splits)

lemma fold_merge_quiz_truthy_mono:
  "quiz_truthy m k \<Longrightarrow> quiz_truthy (fold merge_quiz es m) k"
  by (induction es arbitrary: m) (simp_all add: merge_quiz_truthy_mono)

lemma merge_quiz_sets: "truthy (snd kv) \<Longrightarrow> quiz_truthy (merge_quiz kv m) (fst kv)"
  by (auto simp: merge_quiz_def quiz_truthy_def)

lemma fold_merge_quiz_sets:
  "kv \<in> set es \<Longrightarrow> truthy (snd kv) \<Longrightarrow> quiz_truthy (fold merge_quiz es m) (fst kv)"
proof (induction es arbitrary: m)
  case Nil
  then show ?case by simp
next
  case (Cons e es)
  show ?case
  proof (cases "kv = e")
    case True
    with Cons.prems show ?thesis
      by (simp add: fold_merge_quiz_truthy_mono merge_quiz_sets)
  next
    case False
    with Cons show ?thesis by simp
  qed
qed

lemma fold_merge_quiz_fixed:
  "(\<And>kv. kv \<in> set es \<Longrightarrow> truthy (snd kv) \<Longrightarrow> quiz_truthy m (fst kv))
     \<Longrightarrow> fold merge_quiz es m = m"
proof (induction es)
  case Nil
  then show ?case by simp
next
  case (Cons e es)
  have "merge_quiz e m = m"
    using Cons.prems [of e] by (auto simp: merge_quiz_def)
  with Cons show ?case by simp
qed

lemma fold_merge_quiz_idem:
  "fold merge_quiz es (fold merge_quiz es m) = fold merge_quiz es m"
  by (rule fold_merge_quiz_fixed) (rule fold_merge_quiz_sets)

text \<open>What a successful save has checked and written.\<close>

lemma saveProgress_success:
  assumes "saveProgress d t videoId u cps q = (Inr r, d')"
  shows "videoId \<noteq> []" "validateCheckpoints cps None" "validateQuizzes q"
    "\<not> hasRegression (stored_checkpoints d videoId (userId_of u)) (booleans cps)"
    "checkpoints (progress r) =
       checkpoints (mergeProgress (d (videoId, userId_of u))
         \<lparr>rq_checkpoints = booleans cps, rq_quizzes = q\<rparr>)"
    "quizzes (progress r) =
       quizzes (mergeProgress (d (videoId, userId_of u))
         \<lparr>rq_checkpoints = booleans cps, rq_quizzes = q\<rparr>)"
    "d' = d((videoId, userId_of u) \<mapsto> progress r)"
    "stats r = completion_stats (checkpoints (progress r))"
  using assms
  by (auto simp: saveProgress_def Let_def stored_checkpoints_def hasRegression_def
           split: if_splits option.splits)

lemma validateQuizzes_iff:
  "validateQuizzes q \<longleftrightarrow>
     \<not> (truthy q \<and> typeof_object q
        \<and> list_ex (\<lambda>kv. Number_isNaN (fst kv) \<or> \<not> typeof_boolean (snd kv)) (Object_entries q))"
  by (auto simp: validateQuizzes_def list_all_iff list_ex_iff)

lemma merge_quiz_all_true: "quizzes_all_true m \<Longrightarrow> quizzes_all_true (merge_quiz kv m)"
  by (auto simp: quizzes_all_true_def merge_quiz_def)

lemma fold_merge_quiz_all_true:
  "quizzes_all_true m \<Longrightarrow> quizzes_all_true (fold merge_quiz es m)"
  by (induction es arbitrary: m) (simp_all add: merge_quiz_all_true)

lemma mergeProgress_all_true:
  assumes "\<And>e. existing = Some e \<Longrightarrow> quizzes_all_true (quizzes e)"
  shows "quizzes_all_true (quizzes (mergeProgress existing incoming))"
proof (cases existing)
  case None
  have "quizzes_all_true Map.empty" by (simp add: quizzes_all_true_def)
  with None show ?thesis
    by (simp add: mergeProgress_def Let_def fold_merge_quiz_all_true)
next
  case (Some e)
  with assms show ?thesis
    by (simp add: mergeProgress_def Let_def fold_merge_quiz_all_true)
qed

lemma reachable_all_true:
  "reachable d \<Longrightarrow> d key = Some p \<Longrightarrow> quizzes_all_true (quizzes p)"
proof (induction arbitrary: key p rule: reachable.induct)
  case empty
  then show ?case by simp
next
  case (save d t videoId userIdParam cps q r d')
  note s = saveProgress_success [OF save.hyps(2)]
  show ?case
  proof (cases "key = (videoId, userId_of userIdParam)")
    case True
    with save.prems s(7) have "p = progress r" by simp
    moreover have "quizzes_all_true (quizzes (progress r))"
      unfolding s(6) by (rule mergeProgress_all_true) (rule save.IH)
    ultimately show ?thesis by simp
  next
    case False
    with save.prems s(7) have "d key = Some p" by simp
    then show ?thesis by (rule save.IH)
  qed
qed

text \<open>Unfolding the handlers on concrete requests.\<close>

lemmas store_eval =
  saveProgress_def validateCheckpoints_def validateQuizzes_def booleans_def userId_of_def
  hasRegression_def mergeProgress_def nth_or_false_def stored_checkpoints_def
  stored_quizzes_def Let_def

lemma db_tf_row:
  "db_tf (''v1'', ''default_user'') =
     Some \<lparr>checkpoints = [True, False], quizzes = Map.empty, video_id = ''v1'',
           user_id = ''default_user'', updated_at = 1\<rparr>"
  by (simp add: db_tf_def store_eval)

lemma db_s1_row:
  "db_s1 (''v1'', ''u1'') =
     Some \<lparr>checkpoints = [True, False, False], quizzes = Map.empty, video_id = ''v1'',
           user_id = ''u1'', updated_at = 1\<rparr>"
  by (simp add: db_s1_def store_eval)

section \<open>Properties of the rounding\<close>

text \<open>  \<open>expo\<close> is the binary exponent, so \<open>fl\<close> keeps 53 significant bits, and its relative
  error is at most \<open>2\<^sup>-\<^sup>5\<^sup>3\<close>.\<close>

lemma expo_le:
  assumes "x \<noteq> 0"
  shows "2 powi (expo x) \<le> \<bar>x\<bar>"
proof -
  obtain p q where pq: "quotient_of \<bar>x\<bar> = (p, q)"
    by (cases "quotient_of \<bar>x\<bar>")
  have q: "0 < q" using pq by (rule quotient_of_denom_pos)
  have x: "\<bar>x\<bar> = of_int p / of_int q" using pq by (rule quotient_of_div)
  have p: "0 < p"
  proof -
    from assms have "0 < \<bar>x\<bar>" by simp
    with x q show ?thesis by (simp add: zero_less_divide_iff)
  qed
  let ?d = "bitlen p - bitlen q"
  show ?thesis
  proof (cases "2 powi ?d \<le> \<bar>x\<bar>")
    case True
    then show ?thesis by (simp add: expo_def pq)
  next
    case False
    then have e: "expo x = ?d - 1" by (simp add: expo_def pq)
    have bp: "1 \<le> bitlen p" and bq: "1 \<le> bitlen q"
      using p q by (simp_all add: bitlen_alt_def)
    have "(2::int) ^ nat (bitlen p - 1) \<le> p"
      using bitlen_bounds [OF p] by simp
    then have "(of_int ((2::int) ^ nat (bitlen p - 1)) :: rat) \<le> of_int p"
      by (simp only: of_int_le_iff)
    then have lo: "(2::rat) powi (bitlen p - 1) \<le> of_int p"
      using bp by (simp add: power_int_def)
    have "q < (2::int) ^ nat (bitlen q)"
      using bitlen_bounds [OF q] by simp
    then have "(of_int q :: rat) < of_int ((2::int) ^ nat (bitlen q))"
      by (simp only: of_int_less_iff)
    then have hi: "of_int q \<le> (2::rat) powi (bitlen q)"
      using bq by (simp add: power_int_def)
    have "(2::rat) powi (?d - 1) = 2 powi (bitlen p - 1) / 2 powi (bitlen q)"
      using power_int_diff [of "2::rat" "bitlen p - 1" "bitlen q"] by (simp add: algebra_simps)
    also have "\<dots> \<le> of_int p / of_int q"
      using lo hi p q frac_le [where x = "(2::rat) powi (bitlen p - 1)" and y = "of_int p"
            and w = "of_int q" and z = "2 powi bitlen q"]
      by simp
    finally show ?thesis by (simp add: e x)
  qed
qed

lemma expo_gt:
  assumes "x \<noteq> 0"
  shows "\<bar>x\<bar> < 2 powi (expo x + 1)"
proof -
  obtain p q where pq: "quotient_of \<bar>x\<bar> = (p, q)"
    by (cases "quotient_of \<bar>x\<bar>")
  have q: "0 < q" using pq by (rule quotient_of_denom_pos)
  have x: "\<bar>x\<bar> = of_int p / of_int q" using pq by (rule quotient_of_div)
  have p: "0 < p"
  proof -
    from assms have "0 < \<bar>x\<bar>" by simp
    with x q show ?thesis by (simp add: zero_less_divide_iff)
  qed
  let ?d = "bitlen p - bitlen q"
  show ?thesis
  proof (cases "2 powi ?d \<le> \<bar>x\<bar>")
    case False
    then have "expo x = ?d - 1" by (simp add: expo_def pq)
    with False show ?thesis by simp
  next
    case True
    then have e: "expo x = ?d" by (simp add: expo_def pq)
    have bp: "1 \<le> bitlen p" and bq: "1 \<le> bitlen q"
      using p q by (simp_all add: bitlen_alt_def)
    have "p < (2::int) ^ nat (bitlen p)"
      using bitlen_bounds [OF p] by simp
    then have "(of_int p :: rat) < of_int ((2::int) ^ nat (bitlen p))"
      by (simp only: of_int_less_iff)
    then have hi: "of_int p < (2::rat) powi (bitlen p)"
      using bp by (simp add: power_int_def)
    have "(2::int) ^ nat (bitlen q - 1) \<le> q"
      using bitlen_bounds [OF q] by simp
    then have "(of_int ((2::int) ^ nat (bitlen q - 1)) :: rat) \<le> of_int q"
      by (simp only: of_int_le_iff)
    then have lo: "(2::rat) powi (bitlen q - 1) \<le> of_int q"
      using bq by (simp add: power_int_def)
    have pos: "(0::rat) < 2 powi (bitlen q - 1)"
      by (simp add: zero_less_power_int)
    have "of_int p / of_int q < (2::rat) powi (bitlen p) / 2 powi (bitlen q - 1)"
      using hi lo p q pos
        frac_less [where x = "of_int p" and y = "(2::rat) powi (bitlen p)"
            and w = "(2::rat) powi (bitlen q - 1)" and z = "of_int q"]
      by simp
    also have "\<dots> = 2 powi (?d + 1)"
      using power_int_diff [of "2::rat" "bitlen p" "bitlen q - 1"] by (simp add: algebra_simps)
    finally show ?thesis by (simp add: e x)
  qed
qed

lemma rne_err: "\<bar>of_int (rne y) - y\<bar> \<le> 1 / 2"
proof -
  have "of_int \<lfloor>y\<rfloor> \<le> y" and "y < of_int \<lfloor>y\<rfloor> + 1"
    by linarith+
  then show ?thesis
    by (auto simp: rne_def Let_def)
qed

lemma fl_err: "\<bar>fl x - x\<bar> \<le> \<bar>x\<bar> / 2 ^ 53"
proof (cases "x = 0")
  case True
  then show ?thesis by (simp add: fl_def)
next
  case False
  define u :: rat where "u = 2 powi (expo x - 52)"
  have u: "0 < u" by (simp add: u_def zero_less_power_int)
  have "fl x - x = (of_int (rne (x / u)) - x / u) * u"
    using False u by (simp add: fl_def Let_def u_def [symmetric] field_simps)
  then have "\<bar>fl x - x\<bar> = \<bar>of_int (rne (x / u)) - x / u\<bar> * u"
    using u by (simp add: abs_mult)
  also have "\<dots> \<le> 1 / 2 * u"
    using u rne_err [of "x / u"] by (intro mult_right_mono) simp_all
  also have "1 / 2 * u = 2 powi (expo x) / 2 ^ 53"
    using power_int_diff [of "2::rat" "expo x" 52] by (simp add: u_def)
  also have "\<dots> \<le> \<bar>x\<bar> / 2 ^ 53"
    using expo_le [OF False] by (simp add: divide_right_mono)
  finally show ?thesis .
qed

lemma fl_err_numeral: "0 \<le> x \<Longrightarrow> \<bar>fl x - x\<bar> \<le> x / 9007199254740992"
  using fl_err [of x] by simp

lemma fl_unit_err:
  assumes "0 \<le> x" and "x \<le> 1"
  shows "x - 1 / 9007199254740992 \<le> fl x" and "fl x \<le> x + 1 / 9007199254740992"
  using assms fl_err_numeral [OF assms(1)] by linarith+

lemma fl_nonneg: "0 \<le> x \<Longrightarrow> 0 \<le> fl x"
  using fl_err_numeral [of x] by linarith

text \<open>The double nearest to 0.8 lies just above four fifths.\<close>

lemma threshold_value: "COMPLETION_THRESHOLD = 4 / 5 + 1 / (5 * 2 ^ 52)"
  unfolding COMPLETION_THRESHOLD_def by code_simp

lemma threshold_pos: "\<not> COMPLETION_THRESHOLD \<le> 0"
  unfolding threshold_value by simp

text \<open>  For a vector that JavaScript can hold, the rounding of the quotient never changes the
  outcome of the comparison with 0.8: two distinct ratios of lengths below \<open>2\<^sup>3\<^sup>2\<close>
  differ by far more than the rounding error.\<close>

lemma ratio_err:
  assumes "0 < t" and "c \<le> t"
  shows "of_nat c / of_nat t - 1 / 9007199254740992 \<le> js_div (of_nat c) (of_nat t)"
    and "js_div (of_nat c) (of_nat t) \<le> of_nat c / of_nat t + 1 / 9007199254740992"
proof -
  let ?x = "of_nat c / of_nat t :: rat"
  have x: "0 \<le> ?x" "?x \<le> 1"
    using assms by simp_all
  show "?x - 1 / 9007199254740992 \<le> js_div (of_nat c) (of_nat t)"
    unfolding js_div_def using x by (rule fl_unit_err)
  show "js_div (of_nat c) (of_nat t) \<le> ?x + 1 / 9007199254740992"
    unfolding js_div_def using x by (rule fl_unit_err)
qed

lemma ratio_reaches_threshold:
  assumes t: "0 < t" and bound: "t < 2 ^ 32" and ct: "c \<le> t"
  shows "COMPLETION_THRESHOLD \<le> js_div (of_nat c) (of_nat t) \<longleftrightarrow> 4 * t \<le> 5 * c"
proof -
  let ?x = "of_nat c / of_nat t :: rat"
  have tpos: "(0::rat) < of_nat t" using t by simp
  have tb: "(of_nat t :: rat) \<le> 2 ^ 32"
  proof -
    have "(of_nat t :: rat) \<le> of_nat (2 ^ 32)"
      using bound by (simp only: of_nat_le_iff)
    then show ?thesis by simp
  qed
  have gap: "1 / (5 * 2 ^ 32) \<le> 1 / (5 * of_nat t :: rat)"
    using tpos tb by (intro divide_left_mono) simp_all
  have gap': "1 / 21474836480 \<le> 1 / (5 * of_nat t :: rat)"
    using gap by simp
  note err = ratio_err [OF t ct]
  have thr: "COMPLETION_THRESHOLD = 4 / 5 + 1 / 22517998136852480"
    by (simp add: threshold_value)
  show ?thesis
  proof
    assume le: "4 * t \<le> 5 * c"
    show "COMPLETION_THRESHOLD \<le> js_div (of_nat c) (of_nat t)"
    proof (cases "4 * t = 5 * c")
      case True
      then have "(4 * of_nat t :: rat) = 5 * of_nat c"
        by (metis of_nat_mult of_nat_numeral)
      then have "?x = 4 / 5"
        using tpos by (simp add: field_simps)
      then have "js_div (of_nat c) (of_nat t) = COMPLETION_THRESHOLD"
        by (simp only: js_div_def COMPLETION_THRESHOLD_def)
      then show ?thesis by simp
    next
      case False
      with le have "4 * t + 1 \<le> 5 * c" by simp
      then have "(of_nat (4 * t + 1) :: rat) \<le> of_nat (5 * c)"
        by (simp only: of_nat_le_iff)
      then have "(4 * of_nat t + 1 :: rat) \<le> 5 * of_nat c"
        by simp
      then have "1 / (5 * of_nat t) \<le> ?x - 4 / 5"
        using tpos by (simp add: field_simps)
      with gap' err show ?thesis
        unfolding thr by linarith
    qed
  next
    assume th: "COMPLETION_THRESHOLD \<le> js_div (of_nat c) (of_nat t)"
    show "4 * t \<le> 5 * c"
    proof (rule ccontr)
      assume "\<not> 4 * t \<le> 5 * c"
      then have "5 * c + 1 \<le> 4 * t" by simp
      then have "(of_nat (5 * c + 1) :: rat) \<le> of_nat (4 * t)"
        by (simp only: of_nat_le_iff)
      then have "(5 * of_nat c + 1 :: rat) \<le> 4 * of_nat t"
        by simp
      then have "1 / (5 * of_nat t) \<le> 4 / 5 - ?x"
        using tpos by (simp add: field_simps)
      with gap' err th show False
        unfolding thr by linarith
    qed
  qed
qed

text \<open>  The percentage: the two roundings move the product by less than \<open>2\<^sup>-\<^sup>4\<^sup>5\<close>, which
  can change \<^verbatim>\<open>Math.round\<close> only when the exact percentage is a tie.\<close>

lemma fl_percent_err:
  assumes "0 \<le> x" and "x \<le> 1"
  shows "\<bar>fl (fl x * 100) - 100 * x\<bar> < 1 / 35184372088832"
proof -
  note r = fl_unit_err [OF assms] fl_nonneg [OF assms(1)]
  have "0 \<le> fl x * 100" using r(3) by simp
  from fl_err_numeral [OF this] r assms show ?thesis
    by linarith
qed

lemma percent_err:
  assumes "0 < t" and "c \<le> t"
  shows "\<bar>js_mul (js_div (of_nat c) (of_nat t)) 100 - 100 * (of_nat c / of_nat t)\<bar>
           < 1 / 35184372088832"
proof -
  have "0 \<le> (of_nat c / of_nat t :: rat)" and "(of_nat c / of_nat t :: rat) \<le> 1"
    using assms by simp_all
  then show ?thesis
    unfolding js_mul_def js_div_def by (rule fl_percent_err)
qed

lemma round_percent:
  assumes t: "0 < t" and bound: "t < 2 ^ 32" and ct: "c \<le> t"
  shows "((200 * c + t) mod (2 * t) \<noteq> 0 \<longrightarrow>
            Math_round (js_mul (js_div (of_nat c) (of_nat t)) 100)
              = int ((200 * c + t) div (2 * t)))
       \<and> (Math_round (js_mul (js_div (of_nat c) (of_nat t)) 100)
              = int ((200 * c + t) div (2 * t))
          \<or> Math_round (js_mul (js_div (of_nat c) (of_nat t)) 100)
              = int ((200 * c + t) div (2 * t)) - 1)"
proof -
  define p where "p = js_mul (js_div (of_nat c) (of_nat t)) 100"
  define X :: rat where "X = of_nat c / of_nat t"
  define k where "k = (200 * c + t) div (2 * t)"
  define m where "m = (200 * c + t) mod (2 * t)"
  define K :: rat where "K = of_int (int k)"
  define Q :: rat where "Q = of_nat m / of_nat (2 * t)"
  have tpos: "(0::rat) < of_nat t" using t by simp
  have "200 * c + t = 2 * t * k + m"
    by (simp add: k_def m_def)
  then have "(of_nat (200 * c + t) :: rat) = of_nat (2 * t * k + m)"
    by (simp only:)
  then have "(200 * of_nat c + of_nat t :: rat) = 2 * of_nat t * of_nat k + of_nat m"
    by simp
  then have eq: "100 * X + 1 / 2 = K + Q"
    using tpos by (simp add: X_def K_def Q_def field_simps)
  have err: "\<bar>p - 100 * X\<bar> < 1 / 35184372088832"
    unfolding p_def X_def by (rule percent_err [OF t ct])
  have D: "(0::rat) < of_nat (2 * t)" "(of_nat (2 * t) :: rat) \<le> 8589934592"
  proof -
    show "(0::rat) < of_nat (2 * t)" using t by simp
    have "2 * t \<le> 8589934592" using bound by simp
    then have "(of_nat (2 * t) :: rat) \<le> of_nat 8589934592"
      by (simp only: of_nat_le_iff)
    then show "(of_nat (2 * t) :: rat) \<le> 8589934592" by simp
  qed
  have Q0: "0 \<le> Q" by (simp add: Q_def)
  have a: "Math_round p = int k" if "m \<noteq> 0"
  proof -
    have m1: "1 \<le> m" and m2: "m + 1 \<le> 2 * t"
      using that t by (simp_all add: m_def Suc_leI)
    have "(of_nat 1 :: rat) \<le> of_nat m" using m1 by (simp only: of_nat_le_iff)
    then have "1 / of_nat (2 * t) \<le> Q"
      unfolding Q_def using D(1) by (intro divide_right_mono) simp_all
    moreover have "1 / 8589934592 \<le> 1 / (of_nat (2 * t) :: rat)"
      using D by (intro divide_left_mono) simp_all
    ultimately have lo: "1 / 8589934592 \<le> Q" by linarith
    have "(of_nat (m + 1) :: rat) \<le> of_nat (2 * t)" using m2 by (simp only: of_nat_le_iff)
    then have "(of_nat m :: rat) \<le> of_nat (2 * t) - 1" by simp
    then have "Q \<le> (of_nat (2 * t) - 1) / of_nat (2 * t)"
      unfolding Q_def using D(1) by (intro divide_right_mono) simp_all
    also have "\<dots> = 1 - 1 / of_nat (2 * t)"
      using D(1) by (simp add: field_simps)
    finally have "Q \<le> 1 - 1 / of_nat (2 * t)" .
    with \<open>1 / 8589934592 \<le> 1 / (of_nat (2 * t) :: rat)\<close>
    have hi: "Q \<le> 1 - 1 / 8589934592" by linarith
    have "of_int (int k) \<le> p + 1 / 2" and "p + 1 / 2 < of_int (int k) + 1"
      using eq err lo hi unfolding K_def by linarith+
    then show ?thesis
      unfolding Math_round_def by (rule floor_unique)
  qed
  have b: "Math_round p = int k \<or> Math_round p = int k - 1" if "m = 0"
  proof -
    from that have "Q = 0" by (simp add: Q_def)
    with eq err have near: "K - 1 / 35184372088832 < p + 1 / 2" "p + 1 / 2 < K + 1 / 35184372088832"
      by linarith+
    show ?thesis
    proof (cases "K \<le> p + 1 / 2")
      case True
      with near have "of_int (int k) \<le> p + 1 / 2" and "p + 1 / 2 < of_int (int k) + 1"
        unfolding K_def by linarith+
      then have "Math_round p = int k"
        unfolding Math_round_def by (rule floor_unique)
      then show ?thesis by simp
    next
      case False
      with near have "of_int (int k - 1) \<le> p + 1 / 2" and "p + 1 / 2 < of_int (int k - 1) + 1"
        unfolding K_def by simp_all
      then have "Math_round p = int k - 1"
        unfolding Math_round_def by (rule floor_unique)
      then show ?thesis by simp
    qed
  qed
  from a b show ?thesis
    unfolding p_def k_def m_def by blast
qed

lemma round_zero: "Math_round (js_mul 0 100) = 0"
proof -
  have "\<lfloor>(1 / 2 :: rat)\<rfloor> = 0"
    by (rule floor_unique) simp_all
  then show ?thesis
    by (simp add: js_mul_def fl_def Math_round_def)
qed

lemma spec_completionRate_div:
  "0 < t \<Longrightarrow> spec_completionRate c t = int ((200 * c + t) div (2 * t))"
proof -
  assume t: "0 < t"
  have "(100 * of_nat c / of_nat t + 1 / 2 :: rat) = of_nat (200 * c + t) / of_nat (2 * t)"
    using t by (simp add: field_simps)
  then have "Math_round (100 * of_nat c / of_nat t) = \<lfloor>(of_nat (200 * c + t) / of_nat (2 * t) :: rat)\<rfloor>"
    by (simp only: Math_round_def)
  also have "\<dots> = int ((200 * c + t) div (2 * t))"
    by (simp only: floor_divide_of_nat_eq)
  finally show ?thesis using t by (simp add: spec_completionRate_def)
qed

lemma completion_stats_facts:
  assumes "length cps < 2 ^ 32"
  shows "total_checkpoints (completion_stats cps) = length cps"
    and "completed_checkpoints (completion_stats cps) = length (filter (\<lambda>b. b) cps)"
    and "is_completed (completion_stats cps) \<longleftrightarrow>
           0 < length cps \<and> 4 * length cps \<le> 5 * length (filter (\<lambda>b. b) cps)"
    and "\<not> percent_tie (length (filter (\<lambda>b. b) cps)) (length cps) \<Longrightarrow>
           completion_rate (completion_stats cps)
             = spec_completionRate (length (filter (\<lambda>b. b) cps)) (length cps)"
    and "completion_rate (completion_stats cps)
             = spec_completionRate (length (filter (\<lambda>b. b) cps)) (length cps)
         \<or> completion_rate (completion_stats cps)
             = spec_completionRate (length (filter (\<lambda>b. b) cps)) (length cps) - 1"
proof -
  let ?c = "length (filter (\<lambda>b. b) cps)"
  let ?t = "length cps"
  show "total_checkpoints (completion_stats cps) = ?t"
    and "completed_checkpoints (completion_stats cps) = ?c"
    by (simp_all add: completion_stats_def Let_def)
  show "is_completed (completion_stats cps) \<longleftrightarrow> 0 < ?t \<and> 4 * ?t \<le> 5 * ?c"
  proof (cases "0 < ?t")
    case True
    with assms show ?thesis
      using ratio_reaches_threshold [of ?t ?c]
      by (simp add: completion_stats_def Let_def)
  next
    case False
    then show ?thesis
      by (simp add: completion_stats_def Let_def threshold_pos)
  qed
  have zero: "completion_rate (completion_stats cps) = spec_completionRate ?c ?t" if "?t = 0"
    using that by (simp add: completion_stats_def Let_def spec_completionRate_def round_zero)
  have pos: "completion_rate (completion_stats cps) =
               Math_round (js_mul (js_div (of_nat ?c) (of_nat ?t)) 100)" if "0 < ?t"
    using that by (simp add: completion_stats_def Let_def)
  show "completion_rate (completion_stats cps) = spec_completionRate ?c ?t"
    if "\<not> percent_tie ?c ?t"
  proof (cases "0 < ?t")
    case True
    with that assms round_percent [of ?t ?c] show ?thesis
      by (simp add: pos spec_completionRate_div percent_tie_def)
  next
    case False
    then show ?thesis using zero by simp
  qed
  show "completion_rate (completion_stats cps) = spec_completionRate ?c ?t
         \<or> completion_rate (completion_stats cps) = spec_completionRate ?c ?t - 1"
  proof (cases "0 < ?t")
    case True
    with assms round_percent [of ?t ?c] show ?thesis
      by (simp add: pos spec_completionRate_div)
  next
    case False
    then show ?thesis using zero by simp
  qed
qed

lemma stats_1_of_3:
  "completion_stats [True, False, False] =
     \<lparr>total_checkpoints = 3, completed_checkpoints = 1, completion_rate = 33, is_completed = False\<rparr>"
  by code_simp

lemma stats_2_of_3:
  "completion_stats [True, True, False] =
     \<lparr>total_checkpoints = 3, completed_checkpoints = 2, completion_rate = 67, is_completed = False\<rparr>"
  by code_simp

text \<open>  A tie where the roundings show: 23 of 40 is 57.5 percent exactly, the double product is
  just below it, and the reported rate is 57.\<close>

lemma rate_23_of_40:
  "completion_rate (completion_stats (replicate 23 True @ replicate 17 False)) = 57
   \<and> spec_completionRate 23 40 = 58 \<and> percent_tie 23 40"
  by code_simp

section \<open>Properties of the tracker\<close>

text \<open>
  The player has no method \<^verbatim>\<open>currentTIme\<close> and no identifier \<^verbatim>\<open>duratoin\<close> is declared, so
  both callbacks throw before they assign anything, and no event changes the component.
\<close>

lemma player_call_misspelt: "player_call smp ''currentTIme'' = Inl TypeError"
  by (simp add: player_call_def)

lemma ready_scope_misspelt: "ready_scope d ''duratoin'' = Inl ReferenceError"
  by (simp add: ready_scope_def)

lemma onTimeUpdate_throws: "onTimeUpdate s smp = Inl TypeError"
  by (simp add: onTimeUpdate_def player_call_misspelt)

lemma onReady_throws: "onReady s smp = Inl ReferenceError"
  by (simp add: onReady_def player_call_def ready_scope_misspelt)

lemma dispatch_unchanged: "dispatch s ev = s"
  by (cases ev) (simp_all add: dispatch_def onTimeUpdate_throws onReady_throws)

lemma foldl_dispatch: "foldl dispatch s evs = s"
  by (induction evs) (simp_all add: dispatch_unchanged)

lemma run_mount: "run evs = mount"
  by (simp add: run_def foldl_dispatch)

text \<open>
  The updater by itself: it changes the array only by turning an entry from false to
  true, and it calls \<open>onComplete\<close> on every such turn that leaves at least four fifths of
  the entries true. Nothing records that the callback has been called before, so two
  turns in succession call it twice.
\<close>

lemma set_true_neq: "\<not> nth_or_false xs i \<Longrightarrow> set_true xs i \<noteq> xs"
proof (cases "i < length xs")
  case True
  assume "\<not> nth_or_false xs i"
  with True have "\<not> xs ! i" by (simp add: nth_or_false_def)
  moreover from True have "set_true xs i ! i" by (simp add: set_true_def)
  ultimately show ?thesis by metis
next
  case False
  then have "length (set_true xs i) \<noteq> length xs" by (simp add: set_true_def)
  then show ?thesis by metis
qed

lemma set_true_nonempty: "0 < length (set_true xs i)"
  by (auto simp: set_true_def)

lemma setCheckpoints_same:
  "nth_or_false (tr_checkpoints s) i \<Longrightarrow> setCheckpoints s i t = s"
  by (simp add: setCheckpoints_def)

lemma setCheckpoints_new:
  assumes "\<not> nth_or_false (tr_checkpoints s) i"
  shows "tr_checkpoints (setCheckpoints s i t) = set_true (tr_checkpoints s) i"
    and "accum (setCheckpoints s i t) = replicate (length (set_true (tr_checkpoints s) i)) 0"
    and "prevTime (setCheckpoints s i t) = 0"
    and "completions (setCheckpoints s i t) =
           (if COMPLETION_THRESHOLD \<le>
                 js_div (of_nat (length (filter (\<lambda>b. b) (set_true (tr_checkpoints s) i))))
                        (of_nat (length (set_true (tr_checkpoints s) i)))
            then completions s + 1 else completions s)"
  using assms by (simp_all add: setCheckpoints_def Let_def)

lemma setCheckpoints_callback:
  assumes "length (set_true (tr_checkpoints s) i) < 2 ^ 32"
  shows "completions (setCheckpoints s i t) =
           (if \<not> nth_or_false (tr_checkpoints s) i
               \<and> 4 * length (set_true (tr_checkpoints s) i)
                    \<le> 5 * length (filter (\<lambda>b. b) (set_true (tr_checkpoints s) i))
            then completions s + 1 else completions s)"
proof (cases "nth_or_false (tr_checkpoints s) i")
  case True
  then show ?thesis by (simp add: setCheckpoints_same)
next
  case False
  let ?u = "set_true (tr_checkpoints s) i"
  have "COMPLETION_THRESHOLD \<le>
          js_div (of_nat (length (filter (\<lambda>b. b) ?u))) (of_nat (length ?u))
        \<longleftrightarrow> 4 * length ?u \<le> 5 * length (filter (\<lambda>b. b) ?u)"
    using assms by (intro ratio_reaches_threshold set_true_nonempty length_filter_le)
  with False show ?thesis
    by (simp only: setCheckpoints_new(4) [OF False]) simp
qed

lemma updater_fires_again:
  "completions (setCheckpoints three_of_five 3 1000) = 1
   \<and> completions (setCheckpoints (setCheckpoints three_of_five 3 1000) 4 2000) = 2"
  by code_simp

section \<open>The claims\<close>

subsection \<open>C1: the merged checkpoint vector\<close>

text \<open>
  Claim C1 says that a save which passes the regression check stores the pointwise OR
  over the union of the two index ranges, of length \<open>max (len existing) (len incoming)\<close>,
  so that the stored vector never shrinks. The code maps over the incoming vector only.
  Counterexample: onto a stored \<open>[false, false]\<close> the save of \<open>[false]\<close> succeeds and stores
  \<open>[false]\<close>, where the specification's formula gives \<open>[false, false]\<close>.
\<close>

theorem C1_counterexample:
  "stored_checkpoints db_ff ''v1'' ''default_user'' = [False, False]
   \<and> \<not> isl (fst (saveProgress db_ff 2 ''v1'' None (JArr [JBool False]) JUndefined))
   \<and> stored_checkpoints (snd (saveProgress db_ff 2 ''v1'' None (JArr [JBool False]) JUndefined))
        ''v1'' ''default_user'' = [False]
   \<and> spec_mergedCheckpoints [False, False] [False] = [False, False]"
  by (simp add: db_ff_def store_eval spec_mergedCheckpoints_def)

text \<open>
  Claim C1, as amended: after a successful save the stored vector is the merged one, it
  has the length of the incoming vector, entry \<open>i\<close> is the stored entry (false past the
  end of the stored vector) OR the incoming entry, every checkpoint that was stored as
  true is inside the merged vector and true there, and the merged vector is the
  specification's whenever the stored vector is not longer than the incoming one.
\<close>

theorem C1_merged_over_incoming:
  assumes "saveProgress d t videoId u cps q = (Inr r, d')"
  shows "stored_checkpoints d' videoId (userId_of u) = checkpoints (progress r)
    \<and> length (checkpoints (progress r)) = length (booleans cps)
    \<and> (\<forall>i<length (booleans cps).
          checkpoints (progress r) ! i =
            (nth_or_false (stored_checkpoints d videoId (userId_of u)) i \<or> booleans cps ! i))
    \<and> (\<forall>i<length (stored_checkpoints d videoId (userId_of u)).
          stored_checkpoints d videoId (userId_of u) ! i \<longrightarrow>
            i < length (checkpoints (progress r)) \<and> checkpoints (progress r) ! i)
    \<and> (length (stored_checkpoints d videoId (userId_of u)) \<le> length (booleans cps) \<longrightarrow>
          checkpoints (progress r) =
            spec_mergedCheckpoints (stored_checkpoints d videoId (userId_of u)) (booleans cps))"
proof -
  let ?ex = "stored_checkpoints d videoId (userId_of u)"
  let ?inc = "booleans cps"
  let ?m = "checkpoints (progress r)"
  note s = saveProgress_success [OF assms]
  have m: "?m = map (\<lambda>i. nth_or_false ?ex i \<or> ?inc ! i) [0..<length ?inc]"
    by (simp add: s(5) mergeProgress_checkpoints stored_checkpoints_def)
  have 1: "stored_checkpoints d' videoId (userId_of u) = ?m"
    by (simp add: s(7) stored_checkpoints_def)
  have 2: "length ?m = length ?inc"
    by (simp add: m)
  have 3: "\<forall>i<length ?inc. ?m ! i = (nth_or_false ?ex i \<or> ?inc ! i)"
    by (simp add: m)
  have 4: "\<forall>i<length ?ex. ?ex ! i \<longrightarrow> i < length ?m \<and> ?m ! i"
  proof (intro allI impI)
    fix i assume i: "i < length ?ex" "?ex ! i"
    with s(4) have "nth_or_false ?inc i"
      by (auto simp: hasRegression_iff)
    then have "i < length ?inc"
      by (auto simp: nth_or_false_def split: if_splits)
    with i show "i < length ?m \<and> ?m ! i"
      by (simp add: m nth_or_false_def)
  qed
  have 5: "length ?ex \<le> length ?inc \<longrightarrow> ?m = spec_mergedCheckpoints ?ex ?inc"
    by (auto simp: m spec_mergedCheckpoints_def max_def nth_or_false_def)
  from 1 2 3 4 5 show ?thesis by blast
qed

text \<open>The amended C1 at the save of \<open>[true, false, true]\<close> onto a stored \<open>[true, false]\<close>.\<close>

theorem C1_merged_over_incoming_witness:
  "stored_checkpoints
     (snd (saveProgress db_tf 2 ''v1'' None (JArr [JBool True, JBool False, JBool True]) JUndefined))
     ''v1'' ''default_user'' = [True, False, True]"
proof -
  let ?P = "\<lparr>checkpoints = [True, False, True], quizzes = Map.empty, video_id = ''v1'',
            user_id = ''default_user'', updated_at = 2\<rparr>"
  let ?r = "\<lparr>progress = ?P, stats = completion_stats [True, False, True]\<rparr>"
  have h: "saveProgress db_tf 2 ''v1'' None (JArr [JBool True, JBool False, JBool True]) JUndefined
             = (Inr ?r, db_tf((''v1'', ''default_user'') \<mapsto> ?P))"
    by (simp add: db_tf_row store_eval)
  from C1_merged_over_incoming [OF h] show ?thesis
    by (simp add: h userId_of_def)
qed

subsection \<open>C2: regression is rejected\<close>

text \<open>
  Claim C2: if some index within the stored vector is true there and false in the
  incoming vector (an index past the end of the incoming vector counts as false), the
  save fails and the table is left exactly as it was; for a request that meets the
  validation preconditions of the operation (a video id, a vector of booleans, acceptable
  quizzes) the failure is \<open>RegressionRejected\<close>.
\<close>

theorem C2_regression_rejected:
  assumes "d (videoId, userId_of u) = Some e"
    and "i < length (checkpoints e)" and "checkpoints e ! i"
    and "\<not> nth_or_false (booleans cps) i"
  shows "isl (fst (saveProgress d t videoId u cps q))
    \<and> snd (saveProgress d t videoId u cps q) = d
    \<and> (videoId \<noteq> [] \<and> validateCheckpoints cps None \<and> validateQuizzes q \<longrightarrow>
          saveProgress d t videoId u cps q = (Inl RegressionRejected, d))"
proof -
  have "hasRegression (checkpoints e) (booleans cps)"
    using assms(2-4) by (auto simp: hasRegression_iff)
  with assms(1) show ?thesis
    by (simp add: saveProgress_def Let_def)
qed

text \<open>
  Claim C2 on the specification's own example: stored \<open>[true, false]\<close>, incoming
  \<open>[false, true]\<close>.
\<close>

theorem C2_regression_rejected_witness:
  "saveProgress db_tf 2 ''v1'' None (JArr [JBool False, JBool True]) JUndefined
     = (Inl RegressionRejected, db_tf)"
proof -
  have row: "db_tf (''v1'', userId_of None) =
     Some \<lparr>checkpoints = [True, False], quizzes = Map.empty, video_id = ''v1'',
           user_id = ''default_user'', updated_at = 1\<rparr>"
    by (simp add: db_tf_row userId_of_def)
  show ?thesis
    using row
      C2_regression_rejected [of db_tf "''v1''" None _ 0 "JArr [JBool False, JBool True]" 2 JUndefined]
    by (simp add: validateCheckpoints_def validateQuizzes_def booleans_def nth_or_false_def)
qed

subsection \<open>C3: the two-save scenario\<close>

text \<open>
  Claim C3 says that saving \<open>[true, false, false]\<close> and then \<open>[false, true, false]\<close> for
  the same key succeeds and leaves \<open>[true, true, false]\<close>. Counterexample: the second save
  un-completes checkpoint 0, so it is rejected as a regression and the stored vector stays
  \<open>[true, false, false]\<close>.
\<close>

theorem C3_counterexample:
  "fst (saveProgress db_s1 2 ''v1'' (Some ''u1'')
          (JArr [JBool False, JBool True, JBool False]) JUndefined) = Inl RegressionRejected
   \<and> stored_checkpoints
        (snd (saveProgress db_s1 2 ''v1'' (Some ''u1'')
                (JArr [JBool False, JBool True, JBool False]) JUndefined))
        ''v1'' ''u1'' = [True, False, False]"
  by (simp add: db_s1_row store_eval)

text \<open>
  Claim C3, as amended: the first save succeeds with statistics 3, 1, 33, not completed;
  the save of \<open>[false, true, false]\<close> is then rejected with \<open>RegressionRejected\<close> and
  changes nothing; the save of \<open>[true, true, false]\<close> instead succeeds, stores
  \<open>[true, true, false]\<close> and reports 3 checkpoints, 2 completed, rate 67, not completed.
\<close>

theorem C3_scenario:
  "save_stats (saveProgress Map.empty 1 ''v1'' (Some ''u1'')
                 (JArr [JBool True, JBool False, JBool False]) JUndefined)
     = Some \<lparr>total_checkpoints = 3, completed_checkpoints = 1, completion_rate = 33,
             is_completed = False\<rparr>
   \<and> stored_checkpoints db_s1 ''v1'' ''u1'' = [True, False, False]
   \<and> saveProgress db_s1 2 ''v1'' (Some ''u1'')
        (JArr [JBool False, JBool True, JBool False]) JUndefined = (Inl RegressionRejected, db_s1)
   \<and> save_stats (saveProgress db_s1 2 ''v1'' (Some ''u1'')
                   (JArr [JBool True, JBool True, JBool False]) JUndefined)
     = Some \<lparr>total_checkpoints = 3, completed_checkpoints = 2, completion_rate = 67,
             is_completed = False\<rparr>
   \<and> stored_checkpoints
        (snd (saveProgress db_s1 2 ''v1'' (Some ''u1'')
                (JArr [JBool True, JBool True, JBool False]) JUndefined))
        ''v1'' ''u1'' = [True, True, False]"
proof -
  have a: "save_stats (saveProgress Map.empty 1 ''v1'' (Some ''u1'')
                 (JArr [JBool True, JBool False, JBool False]) JUndefined)
     = Some (completion_stats [True, False, False])"
    by (simp add: save_stats_def store_eval)
  have b: "stored_checkpoints db_s1 ''v1'' ''u1'' = [True, False, False]"
    by (simp add: db_s1_row stored_checkpoints_def)
  have c: "saveProgress db_s1 2 ''v1'' (Some ''u1'')
        (JArr [JBool False, JBool True, JBool False]) JUndefined = (Inl RegressionRejected, db_s1)"
    by (simp add: db_s1_row store_eval)
  have d: "save_stats (saveProgress db_s1 2 ''v1'' (Some ''u1'')
                   (JArr [JBool True, JBool True, JBool False]) JUndefined)
     = Some (completion_stats [True, True, False])"
    by (simp add: save_stats_def db_s1_row store_eval)
  have e: "stored_checkpoints
        (snd (saveProgress db_s1 2 ''v1'' (Some ''u1'')
                (JArr [JBool True, JBool True, JBool False]) JUndefined))
        ''v1'' ''u1'' = [True, True, False]"
    by (simp add: db_s1_row store_eval)
  from a b c d e show ?thesis
    by (simp only: stats_1_of_3 stats_2_of_3 simp_thms)
qed

text \<open>The amended C3, read at its last conjunct.\<close>

theorem C3_scenario_witness:
  "stored_checkpoints
     (snd (saveProgress db_s1 2 ''v1'' (Some ''u1'')
             (JArr [JBool True, JBool True, JBool False]) JUndefined))
     ''v1'' ''u1'' = [True, True, False]"
  using C3_scenario by blast

subsection \<open>C4: the statistics of a successful save\<close>

text \<open>
  Claim C4 says that \<open>isCompleted\<close> is decided by the rounded percentage. Counterexample:
  with 35 of 44 checkpoints complete the percentage is 80, which the specification's
  formula accepts, but the handler compares the unrounded ratio with 0.8 and reports
  that the video is not completed.
\<close>

theorem C4_counterexample:
  "save_stats save_44 =
     Some \<lparr>total_checkpoints = 44, completed_checkpoints = 35, completion_rate = 80,
           is_completed = False\<rparr>
   \<and> spec_isCompleted 80"
  by code_simp

text \<open>
  Claim C4, as amended, for a vector of a length JavaScript can hold: the total is the
  length of the merged vector, the completed count is the number of true entries,
  \<open>isCompleted\<close> holds exactly when the vector is not empty and the unrounded ratio is at
  least four fifths, the rate is 0 for an empty vector, it is the specification's rounded
  percentage whenever the exact percentage is not halfway between two integers, and at
  such a tie it is that value or one less.
\<close>

theorem C4_statistics:
  assumes "saveProgress d t videoId u cps q = (Inr r, d')"
    and "length (checkpoints (progress r)) < 2 ^ 32"
  shows "total_checkpoints (stats r) = length (checkpoints (progress r))
    \<and> completed_checkpoints (stats r) = length (filter (\<lambda>b. b) (checkpoints (progress r)))
    \<and> (is_completed (stats r) \<longleftrightarrow>
          0 < total_checkpoints (stats r)
          \<and> 4 * total_checkpoints (stats r) \<le> 5 * completed_checkpoints (stats r))
    \<and> (total_checkpoints (stats r) = 0 \<longrightarrow> completion_rate (stats r) = 0)
    \<and> (\<not> percent_tie (completed_checkpoints (stats r)) (total_checkpoints (stats r)) \<longrightarrow>
          completion_rate (stats r)
            = spec_completionRate (completed_checkpoints (stats r)) (total_checkpoints (stats r)))
    \<and> (completion_rate (stats r)
            = spec_completionRate (completed_checkpoints (stats r)) (total_checkpoints (stats r))
        \<or> completion_rate (stats r)
            = spec_completionRate (completed_checkpoints (stats r)) (total_checkpoints (stats r)) - 1)"
proof -
  have s: "stats r = completion_stats (checkpoints (progress r))"
    using assms(1) by (rule saveProgress_success)
  note f = completion_stats_facts [OF assms(2)]
  have z: "total_checkpoints (stats r) = 0 \<longrightarrow> completion_rate (stats r) = 0"
    unfolding s
    by (simp add: completion_stats_def Let_def round_zero)
  show ?thesis
    using f(3) f(4) f(5) z unfolding s f(1) f(2) by blast
qed

text \<open>The amended C4 at the save of \<open>[true, true, false]\<close>.\<close>

theorem C4_statistics_witness:
  "save_stats (saveProgress db_s1 2 ''v1'' (Some ''u1'')
                 (JArr [JBool True, JBool True, JBool False]) JUndefined)
     = Some \<lparr>total_checkpoints = 3, completed_checkpoints = 2, completion_rate = 67,
             is_completed = False\<rparr>"
proof -
  let ?P = "\<lparr>checkpoints = [True, True, False], quizzes = Map.empty, video_id = ''v1'',
            user_id = ''u1'', updated_at = 2\<rparr>"
  let ?r = "\<lparr>progress = ?P, stats = completion_stats [True, True, False]\<rparr>"
  have h: "saveProgress db_s1 2 ''v1'' (Some ''u1'')
             (JArr [JBool True, JBool True, JBool False]) JUndefined
             = (Inr ?r, db_s1((''v1'', ''u1'') \<mapsto> ?P))"
    by (simp add: db_s1_row store_eval)
  have b: "length (checkpoints (progress ?r)) < 2 ^ 32" by simp
  have tie: "\<not> percent_tie 2 3" by (simp add: percent_tie_def)
  have sp: "spec_completionRate 2 3 = 67" by (simp add: spec_completionRate_div)
  from C4_statistics [OF h b]
  have "total_checkpoints (stats ?r) = 3" and "completed_checkpoints (stats ?r) = 2"
    and "\<not> is_completed (stats ?r)" and "completion_rate (stats ?r) = 67"
    using tie sp by (simp_all add: numeral_2_eq_2 [symmetric] numeral_3_eq_3 [symmetric])
  then have "stats ?r = \<lparr>total_checkpoints = 3, completed_checkpoints = 2, completion_rate = 67,
             is_completed = False\<rparr>"
    by (cases "stats ?r") simp
  then show ?thesis
    by (simp add: save_stats_def h)
qed

subsection \<open>C5: backward seeks\<close>



subsection \<open>C6: the completion callback\<close>

text \<open>
  Claim C6 says that the completion callback is invoked exactly once per session, at the
  first completion of a checkpoint that brings the completion rate to 0.8. The component
  as it is written never invokes it: in every session the checkpoint array stays empty
  and the number of calls stays 0.
\<close>

theorem C6_callback_never_invoked:
  "completions (run evs) = 0 \<and> tr_checkpoints (run evs) = []"
  by (simp add: run_mount mount_def)

text \<open>
  The session that plays all five segments of a video of 50 seconds: no checkpoint is
  recorded and the callback is not invoked.
\<close>

theorem C6_callback_never_invoked_witness:
  "completions (run full_session) = 0 \<and> tr_checkpoints (run full_session) = []"
  using C6_callback_never_invoked [of full_session] by simp

subsection \<open>C7: validation of the quizzes field\<close>

text \<open>
  Claim C7 says that a save is rejected unless every quiz key parses as a non-negative
  integer. Counterexample: the quizzes \<open>{"-1": true}\<close> are accepted and stored under the
  key \<open>-1\<close>.
\<close>

theorem C7_counterexample:
  "\<not> isl (fst (saveProgress Map.empty 1 ''v1'' None (JArr [JBool True])
                 (JObj [(''-1'', JBool True)])))
   \<and> stored_quizzes (snd (saveProgress Map.empty 1 ''v1'' None (JArr [JBool True])
                 (JObj [(''-1'', JBool True)]))) ''v1'' ''default_user'' ''-1'' = Some True"
  by (simp add: store_eval merge_quiz_def quiz_truthy_def Object_prototype_names_def
      Number_isNaN_def trim_def is_ws_def unsigned_decimal_def is_digit_def digits1_def)

text \<open>
  Claim C7, as amended: a request with a video id and a valid checkpoint vector is
  rejected for its quizzes exactly when the field is an object or an array with an entry
  whose key \<^verbatim>\<open>Number\<close> converts to NaN or whose value is not a boolean; the rejection
  leaves the table unchanged; an absent field is accepted and has the effect of an empty
  object.
\<close>

theorem C7_quizzes_validation:
  assumes "videoId \<noteq> []" and "validateCheckpoints cps None"
  shows "(fst (saveProgress d t videoId u cps q) = Inl InvalidQuizzes \<longleftrightarrow>
            truthy q \<and> typeof_object q
            \<and> list_ex (\<lambda>kv. Number_isNaN (fst kv) \<or> \<not> typeof_boolean (snd kv))
                 (Object_entries q))
    \<and> (fst (saveProgress d t videoId u cps q) = Inl InvalidQuizzes \<longrightarrow>
          snd (saveProgress d t videoId u cps q) = d)
    \<and> fst (saveProgress d t videoId u cps JUndefined) \<noteq> Inl InvalidQuizzes
    \<and> saveProgress d t videoId u cps JUndefined = saveProgress d t videoId u cps (JObj [])"
proof -
  have 1: "fst (saveProgress d t videoId u cps q) = Inl InvalidQuizzes \<longleftrightarrow> \<not> validateQuizzes q"
    using assms by (auto simp: saveProgress_def Let_def split: option.splits)
  have 2: "fst (saveProgress d t videoId u cps q) = Inl InvalidQuizzes \<longrightarrow>
          snd (saveProgress d t videoId u cps q) = d"
    using assms by (auto simp: saveProgress_def Let_def split: option.splits if_splits)
  have 3: "fst (saveProgress d t videoId u cps JUndefined) \<noteq> Inl InvalidQuizzes"
    using assms
    by (auto simp: saveProgress_def Let_def validateQuizzes_def split: option.splits)
  have 4: "saveProgress d t videoId u cps JUndefined = saveProgress d t videoId u cps (JObj [])"
    by (simp add: saveProgress_def Let_def validateQuizzes_def mergeProgress_def)
  from 1 2 3 4 show ?thesis
    by (simp only: validateQuizzes_iff simp_thms)
qed

text \<open>The amended C7 at the quizzes \<open>{"abc": true}\<close>, which are rejected.\<close>

theorem C7_quizzes_validation_witness:
  "saveProgress Map.empty 1 ''v1'' None (JArr [JBool True]) (JObj [(''abc'', JBool True)])
     = (Inl InvalidQuizzes, Map.empty)"
proof -
  have n: "Number_isNaN ''abc''"
    by (simp add: Number_isNaN_def trim_def is_ws_def unsigned_decimal_def is_digit_def)
  have v: "validateCheckpoints (JArr [JBool True]) None"
    by (simp add: validateCheckpoints_def)
  from C7_quizzes_validation [OF _ v, of "''v1''" Map.empty 1 None "JObj [(''abc'', JBool True)]"] n
  show ?thesis
    by (simp add: prod_eq_iff)
qed

subsection \<open>C8: the merge is idempotent\<close>

text \<open>
  Claim C8: merging a snapshot into the result of merging it once gives the same
  checkpoints and quizzes as merging it once, for every stored row (or none) and every
  snapshot.
\<close>

theorem C8_merge_idempotent:
  "mergeProgress
     (Some \<lparr>checkpoints = checkpoints (mergeProgress existing x),
            quizzes = quizzes (mergeProgress existing x),
            video_id = v, user_id = u, updated_at = t\<rparr>) x
   = mergeProgress existing x"
proof -
  let ?m = "mergeProgress existing x"
  let ?e = "Some \<lparr>checkpoints = checkpoints ?m, quizzes = quizzes ?m,
                  video_id = v, user_id = u, updated_at = t\<rparr>"
  have c: "checkpoints (mergeProgress ?e x) = checkpoints ?m"
    by (rule nth_equalityI) (auto simp: mergeProgress_checkpoints nth_or_false_def)
  have q: "quizzes (mergeProgress ?e x) = quizzes ?m"
    by (simp add: mergeProgress_def Let_def fold_merge_quiz_idem)
  from c q show ?thesis by simp
qed

text \<open>Claim C8 at a first save of \<open>[true, false]\<close> with one correct quiz answer.\<close>

theorem C8_merge_idempotent_witness:
  "checkpoints
     (mergeProgress
        (Some \<lparr>checkpoints =
                  checkpoints (mergeProgress None
                    \<lparr>rq_checkpoints = [True, False], rq_quizzes = JObj [(''1'', JBool True)]\<rparr>),
               quizzes =
                  quizzes (mergeProgress None
                    \<lparr>rq_checkpoints = [True, False], rq_quizzes = JObj [(''1'', JBool True)]\<rparr>),
               video_id = ''v1'', user_id = ''u1'', updated_at = 2\<rparr>)
        \<lparr>rq_checkpoints = [True, False], rq_quizzes = JObj [(''1'', JBool True)]\<rparr>)
   = [True, False]"
  using C8_merge_idempotent
    [of None "\<lparr>rq_checkpoints = [True, False], rq_quizzes = JObj [(''1'', JBool True)]\<rparr>"
        "''v1''" "''u1''" 2]
  by (simp add: mergeProgress_checkpoints nth_or_false_def)

subsection \<open>C9: the default user\<close>

text \<open>
  Claim C9: when the \<open>userId\<close> parameter is absent or empty, a read, a save and a delete
  do not fail for that reason and act on the row of the user \<open>default_user\<close>. The read of
  a video returns what is stored under \<open>(videoId, default_user)\<close>, or the empty shape;
  the delete removes exactly that row; a save that passes validation and the regression
  check against that row succeeds, merges into that row and writes it back under the same
  key, leaving every other row alone; and each operation has the result it has for the
  explicit user \<open>default_user\<close>. So what one caller without \<open>userId\<close> saves, another reads,
  and what one deletes, the other no longer finds.
\<close>

theorem C9_default_user:
  assumes "u = None \<or> u = Some []" and "u' = None \<or> u' = Some []"
  shows "getProgress d videoId u = getProgress d videoId (Some ''default_user'')
    \<and> saveProgress d t videoId u cps q = saveProgress d t videoId (Some ''default_user'') cps q
    \<and> deleteProgress d videoId u = deleteProgress d videoId (Some ''default_user'')
    \<and> (videoId \<noteq> [] \<longrightarrow>
          getProgress d videoId u =
            Inr (\<lparr>checkpoints = stored_checkpoints d videoId ''default_user'',
                  quizzes = stored_quizzes d videoId ''default_user''\<rparr>,
                 map_option updated_at (d (videoId, ''default_user''))))
    \<and> deleteProgress d videoId u = d((videoId, ''default_user'') := None)
    \<and> (videoId \<noteq> [] \<and> validateCheckpoints cps None \<and> validateQuizzes q
        \<and> \<not> hasRegression (stored_checkpoints d videoId ''default_user'') (booleans cps) \<longrightarrow>
          saveProgress d t videoId u cps q =
            (Inr \<lparr>progress =
                    \<lparr>checkpoints =
                        checkpoints (mergeProgress (d (videoId, ''default_user''))
                          \<lparr>rq_checkpoints = booleans cps, rq_quizzes = q\<rparr>),
                     quizzes =
                        quizzes (mergeProgress (d (videoId, ''default_user''))
                          \<lparr>rq_checkpoints = booleans cps, rq_quizzes = q\<rparr>),
                     video_id = videoId, user_id = ''default_user'', updated_at = t\<rparr>,
                  stats =
                    completion_stats
                      (checkpoints (mergeProgress (d (videoId, ''default_user''))
                         \<lparr>rq_checkpoints = booleans cps, rq_quizzes = q\<rparr>))\<rparr>,
             d((videoId, ''default_user'') \<mapsto>
                 \<lparr>checkpoints =
                     checkpoints (mergeProgress (d (videoId, ''default_user''))
                       \<lparr>rq_checkpoints = booleans cps, rq_quizzes = q\<rparr>),
                  quizzes =
                     quizzes (mergeProgress (d (videoId, ''default_user''))
                       \<lparr>rq_checkpoints = booleans cps, rq_quizzes = q\<rparr>),
                  video_id = videoId, user_id = ''default_user'', updated_at = t\<rparr>)))
    \<and> (\<forall>r d'. saveProgress d t videoId u cps q = (Inr r, d') \<longrightarrow>
          getProgress d' videoId u' =
            Inr (\<lparr>checkpoints = checkpoints (progress r), quizzes = quizzes (progress r)\<rparr>,
                 Some t))
    \<and> (videoId \<noteq> [] \<longrightarrow>
          getProgress (deleteProgress d videoId u) videoId u' =
            Inr (\<lparr>checkpoints = [], quizzes = Map.empty\<rparr>, None))"
proof -
  have u: "userId_of u = ''default_user''" and u': "userId_of u' = ''default_user''"
    using assms by (auto simp: userId_of_def)
  have dflt: "userId_of (Some ''default_user'') = ''default_user''"
    by (simp add: userId_of_def)
  have 1: "getProgress d videoId u = getProgress d videoId (Some ''default_user'')"
    by (simp add: getProgress_def u dflt)
  have 2: "saveProgress d t videoId u cps q
             = saveProgress d t videoId (Some ''default_user'') cps q"
    by (simp add: saveProgress_def u dflt)
  have 3: "deleteProgress d videoId u = deleteProgress d videoId (Some ''default_user'')"
    by (simp add: deleteProgress_def u dflt)
  have 4: "videoId \<noteq> [] \<longrightarrow>
          getProgress d videoId u =
            Inr (\<lparr>checkpoints = stored_checkpoints d videoId ''default_user'',
                  quizzes = stored_quizzes d videoId ''default_user''\<rparr>,
                 map_option updated_at (d (videoId, ''default_user'')))"
    by (simp add: getProgress_def u stored_checkpoints_def stored_quizzes_def
             split: option.splits)
  have 5: "deleteProgress d videoId u = d((videoId, ''default_user'') := None)"
    by (simp add: deleteProgress_def u)
  have 6: "videoId \<noteq> [] \<and> validateCheckpoints cps None \<and> validateQuizzes q
        \<and> \<not> hasRegression (stored_checkpoints d videoId ''default_user'') (booleans cps) \<longrightarrow>
          saveProgress d t videoId u cps q =
            (Inr \<lparr>progress =
                    \<lparr>checkpoints =
                        checkpoints (mergeProgress (d (videoId, ''default_user''))
                          \<lparr>rq_checkpoints = booleans cps, rq_quizzes = q\<rparr>),
                     quizzes =
                        quizzes (mergeProgress (d (videoId, ''default_user''))
                          \<lparr>rq_checkpoints = booleans cps, rq_quizzes = q\<rparr>),
                     video_id = videoId, user_id = ''default_user'', updated_at = t\<rparr>,
                  stats =
                    completion_stats
                      (checkpoints (mergeProgress (d (videoId, ''default_user''))
                         \<lparr>rq_checkpoints = booleans cps, rq_quizzes = q\<rparr>))\<rparr>,
             d((videoId, ''default_user'') \<mapsto>
                 \<lparr>checkpoints =
                     checkpoints (mergeProgress (d (videoId, ''default_user''))
                       \<lparr>rq_checkpoints = booleans cps, rq_quizzes = q\<rparr>),
                  quizzes =
                     quizzes (mergeProgress (d (videoId, ''default_user''))
                       \<lparr>rq_checkpoints = booleans cps, rq_quizzes = q\<rparr>),
                  video_id = videoId, user_id = ''default_user'', updated_at = t\<rparr>))"
    by (auto simp: saveProgress_def Let_def u stored_checkpoints_def hasRegression_def
             split: option.splits)
  have 7: "\<forall>r d'. saveProgress d t videoId u cps q = (Inr r, d') \<longrightarrow>
          getProgress d' videoId u' =
            Inr (\<lparr>checkpoints = checkpoints (progress r), quizzes = quizzes (progress r)\<rparr>,
                 Some t)"
  proof (intro allI impI)
    fix r d'
    assume s: "saveProgress d t videoId u cps q = (Inr r, d')"
    note f = saveProgress_success [OF s]
    have "updated_at (progress r) = t"
      using s by (auto simp: saveProgress_def Let_def split: if_splits option.splits)
    then show "getProgress d' videoId u' =
            Inr (\<lparr>checkpoints = checkpoints (progress r), quizzes = quizzes (progress r)\<rparr>,
                 Some t)"
      using f(1) by (simp add: getProgress_def u u' f(7))
  qed
  have 8: "videoId \<noteq> [] \<longrightarrow>
          getProgress (deleteProgress d videoId u) videoId u' =
            Inr (\<lparr>checkpoints = [], quizzes = Map.empty\<rparr>, None)"
    by (simp add: getProgress_def deleteProgress_def u u')
  from 1 2 3 4 5 6 7 8 show ?thesis by blast
qed

text \<open>
  Claim C9 on a table that holds the row \<open>[true, false]\<close> of the default user: a read
  without \<open>userId\<close> returns that row, and after a delete with an empty \<open>userId\<close> a read
  without \<open>userId\<close> returns the empty shape.
\<close>

theorem C9_default_user_witness:
  "getProgress db_tf ''v1'' None =
     Inr (\<lparr>checkpoints = [True, False], quizzes = Map.empty\<rparr>, Some 1)
   \<and> getProgress (deleteProgress db_tf ''v1'' (Some [])) ''v1'' None =
     Inr (\<lparr>checkpoints = [], quizzes = Map.empty\<rparr>, None)"
proof -
  have n: "(None :: string option) = None \<or> None = Some []" by simp
  have e: "Some [] = (None :: string option) \<or> Some ([] :: string) = Some []" by simp
  have v: "''v1'' \<noteq> []" by simp
  have "getProgress db_tf ''v1'' None =
          Inr (\<lparr>checkpoints = stored_checkpoints db_tf ''v1'' ''default_user'',
                quizzes = stored_quizzes db_tf ''v1'' ''default_user''\<rparr>,
               map_option updated_at (db_tf (''v1'', ''default_user'')))"
    using C9_default_user [OF n n, of db_tf "''v1''" 2 "JArr []" JUndefined] v by blast
  then have a: "getProgress db_tf ''v1'' None =
     Inr (\<lparr>checkpoints = [True, False], quizzes = Map.empty\<rparr>, Some 1)"
    by (simp add: stored_checkpoints_def stored_quizzes_def db_tf_row)
  have b: "getProgress (deleteProgress db_tf ''v1'' (Some [])) ''v1'' None =
     Inr (\<lparr>checkpoints = [], quizzes = Map.empty\<rparr>, None)"
    using C9_default_user [OF e n, of db_tf "''v1''" 2 "JArr []" JUndefined] v by blast
  from a b show ?thesis by simp
qed

subsection \<open>C10: stored quiz values are true\<close>

text \<open>
  Claim C10: in every table that successful saves reach from the empty table, every
  value of every stored quiz map is \<open>true\<close>.
\<close>

theorem C10_stored_quizzes_true:
  "reachable d \<Longrightarrow> d key = Some p \<Longrightarrow> quizzes p k = Some b \<Longrightarrow> b"
  using reachable_all_true [of d key p] unfolding quizzes_all_true_def by blast

text \<open>
  Claim C10 at a save that answers quiz 1 correctly and quiz 2 wrongly: only quiz 1
  is stored.
\<close>

theorem C10_stored_quizzes_true_witness:
  "reachable db_q \<and> stored_quizzes db_q ''v1'' ''default_user'' ''1'' = Some True
   \<and> stored_quizzes db_q ''v1'' ''default_user'' ''2'' = None"
proof -
  let ?P = "\<lparr>checkpoints = [True], quizzes = [''1'' \<mapsto> True], video_id = ''v1'',
            user_id = ''default_user'', updated_at = 100\<rparr>"
  let ?r = "\<lparr>progress = ?P, stats = completion_stats [True]\<rparr>"
  have h: "saveProgress Map.empty 100 ''v1'' None (JArr [JBool True])
                 (JObj [(''1'', JBool True), (''2'', JBool False)])
             = (Inr ?r, [(''v1'', ''default_user'') \<mapsto> ?P])"
    by (simp add: store_eval merge_quiz_def quiz_truthy_def Object_prototype_names_def
      Number_isNaN_def trim_def is_ws_def unsigned_decimal_def is_digit_def digits1_def)
  have r: "reachable db_q"
    unfolding db_q_def h snd_conv by (rule reachable.save [OF reachable.empty h])
  have row: "db_q (''v1'', ''default_user'') = Some ?P"
    by (simp add: db_q_def h)
  have q: "quizzes ?P ''1'' = Some True" by simp
  from C10_stored_quizzes_true [OF r row q] r row show ?thesis
    by (simp add: stored_quizzes_def)
qed

end
